theory Spec2Isabelle
  imports Complex_Main
begin

section \<open>The map screen of the resident application (src/screens/MapScreen.tsx)\<close>

subsection \<open>JavaScript numbers\<close>

text \<open>
  A TypeScript \<open>number\<close> is an IEEE double: a finite value, one of the two infinities,
  or NaN. The finite values are embedded in the reals (every double is a real; the
  thresholds 50, 70, 90 and the radius 500 are doubles), so a statement about every
  \<open>Finite r\<close> covers every finite double. Only the comparisons the screen uses are
  modelled; they are false as soon as one operand is NaN.
\<close>

datatype number = Finite real | PosInfinity | NegInfinity | NaN

fun number_ge :: "number \<Rightarrow> number \<Rightarrow> bool" where
  "number_ge NaN y = False"
| "number_ge x NaN = False"
| "number_ge PosInfinity y = True"
| "number_ge x NegInfinity = True"
| "number_ge NegInfinity y = False"
| "number_ge x PosInfinity = False"
| "number_ge (Finite a) (Finite b) = (b \<le> a)"

fun number_lt :: "number \<Rightarrow> number \<Rightarrow> bool" where
  "number_lt NaN y = False"
| "number_lt x NaN = False"
| "number_lt PosInfinity y = False"
| "number_lt x NegInfinity = False"
| "number_lt NegInfinity y = True"
| "number_lt x PosInfinity = True"
| "number_lt (Finite a) (Finite b) = (a < b)"

subsection \<open>Marker colours (lines 228-233)\<close>

definition red :: string where
  "red = ''#EF4444''"

definition amber :: string where
  "amber = ''#F59E0B''"

definition yellow :: string where
  "yellow = ''#FBBF24''"

definition green :: string where
  "green = ''#10B981''"

definition getFillLevelColor :: "number \<Rightarrow> string" where
  "getFillLevelColor fillLevel =
     (if number_ge fillLevel (Finite 90) then ''#EF4444''
      else if number_ge fillLevel (Finite 70) then ''#F59E0B''
      else if number_ge fillLevel (Finite 50) then ''#FBBF24''
      else ''#10B981'')"

subsection \<open>Data (lines 25-44)\<close>

text \<open>
  A bin as the interface declares it; \<open>_id\<close> is written \<open>bin_id\<close>, the \<open>type\<close> and
  \<open>location\<close> fields \<open>geo_type\<close> and \<open>bin_location\<close>. The pair \<open>coordinates\<close> is the
  two-element tuple: \<open>fst\<close> is \<open>coordinates[0]\<close>, \<open>snd\<close> is \<open>coordinates[1]\<close>.
\<close>

record GeoPoint =
  geo_type :: string
  coordinates :: "number \<times> number"

record Bin =
  bin_id :: string
  bin_location :: GeoPoint
  fillLevel :: number

record LatLng =
  latitude :: number
  longitude :: number

text \<open>The seven state variables of the component.\<close>

record MapScreen =
  location :: "LatLng option"
  bins :: "Bin list"
  selectedBin :: "Bin option"
  loading :: bool
  reportVisible :: bool
  reportText :: string
  images :: "string list"

definition initial_state :: MapScreen where
  "initial_state =
     \<lparr>location = None, bins = [], selectedBin = None, loading = True,
      reportVisible = False, reportText = [], images = []\<rparr>"

subsection \<open>Collaborators and what an awaited call gives back\<close>

datatype js_error = JsError string

datatype 'a outcome = Resolved 'a | Rejected js_error

datatype ImagePickerAsset = Asset (uri: string)

datatype ImagePickerResult = Canceled | Success "ImagePickerAsset list"

text \<open>The picker's enumeration \<open>All\<close>, \<open>Videos\<close>, \<open>Images\<close>; the first is written \<open>AllMedia\<close>.\<close>

datatype MediaTypeOptions = AllMedia | Videos | Images

text \<open>
  Everything a handler does, in program order: a call of a state setter, or a call of a
  collaborator (location provider, bin service, picker, alert, console, navigation).
  A handler reads state only through the variables of the render it was created in
  (its closure); its setter calls act on the state at the time they run.
\<close>

datatype action =
    SetLocation "LatLng option"
  | SetBins "Bin list"
  | SetSelectedBin "Bin option"
  | SetLoading bool
  | SetReportVisible bool
  | SetReportText string
  | SetImages "string list"
  | RequestForegroundPermissionsAsync
  | GetCurrentPositionAsync
  | GetBinsNearby number number number
  | LaunchImageLibraryAsync bool MediaTypeOptions number
  | AlertAlert "string list"
  | ConsoleError string js_error
  | ConsoleLog string string "string list"
  | Navigate string

fun apply_action :: "action \<Rightarrow> MapScreen \<Rightarrow> MapScreen" where
  "apply_action (SetLocation l) s = s\<lparr>location := l\<rparr>"
| "apply_action (SetBins bs) s = s\<lparr>bins := bs\<rparr>"
| "apply_action (SetSelectedBin b) s = s\<lparr>selectedBin := b\<rparr>"
| "apply_action (SetLoading b) s = s\<lparr>loading := b\<rparr>"
| "apply_action (SetReportVisible b) s = s\<lparr>reportVisible := b\<rparr>"
| "apply_action (SetReportText t) s = s\<lparr>reportText := t\<rparr>"
| "apply_action (SetImages is) s = s\<lparr>images := is\<rparr>"
| "apply_action a s = s"

fun run :: "action list \<Rightarrow> MapScreen \<Rightarrow> MapScreen" where
  "run [] s = s"
| "run (a # as) s = run as (apply_action a s)"

subsection \<open>The initial load (lines 46-72)\<close>

definition load_catch :: "js_error \<Rightarrow> action list" where
  "load_catch e =
     [ConsoleError ''Error loading map data:'' e,
      AlertAlert [''Error'', ''Failed to load map data. Please try again.'']]"

text \<open>
  The effect body, given what each of its three awaited calls gives back. An outcome is
  only looked at when the call is reached. The last action is the \<open>finally\<close> block; the
  denied branch clears the flag itself before it returns through \<open>finally\<close>.
\<close>

definition initialLoad ::
  "string outcome \<Rightarrow> LatLng outcome \<Rightarrow> Bin list outcome \<Rightarrow> action list" where
  "initialLoad permission position fetched =
     [SetLoading True, RequestForegroundPermissionsAsync] @
     (case permission of
        Rejected e \<Rightarrow> load_catch e
      | Resolved status \<Rightarrow>
          if status \<noteq> ''granted''
          then [AlertAlert [''Permission to access location was denied''], SetLoading False]
          else [GetCurrentPositionAsync] @
            (case position of
               Rejected e \<Rightarrow> load_catch e
             | Resolved coords \<Rightarrow>
                 [SetLocation (Some \<lparr>latitude = latitude coords, longitude = longitude coords\<rparr>),
                  GetBinsNearby (latitude coords) (longitude coords) (Finite 500)] @
                 (case fetched of
                    Rejected e \<Rightarrow> load_catch e
                  | Resolved binsNearby \<Rightarrow> [SetBins binsNearby]))) @
     [SetLoading False]"

subsection \<open>Refresh (lines 74-85)\<close>

text \<open>The first argument is the state the handler closes over.\<close>

definition refreshBins :: "MapScreen \<Rightarrow> Bin list outcome \<Rightarrow> action list" where
  "refreshBins c fetched =
     (case location c of
        None \<Rightarrow> []
      | Some l \<Rightarrow>
          [SetLoading True, GetBinsNearby (latitude l) (longitude l) (Finite 500)] @
          (case fetched of
             Resolved binsNearby \<Rightarrow> [SetBins binsNearby]
           | Rejected e \<Rightarrow> [ConsoleError ''Error refreshing bins:'' e]) @
          [SetLoading False])"

subsection \<open>The report draft (lines 87-106)\<close>

text \<open>A rejected picker call is not caught: the handler ends there.\<close>

definition pickImages :: "MapScreen \<Rightarrow> ImagePickerResult outcome \<Rightarrow> action list" where
  "pickImages c result =
     LaunchImageLibraryAsync True Images (Finite 1) #
     (case result of
        Rejected e \<Rightarrow> []
      | Resolved Canceled \<Rightarrow> []
      | Resolved (Success assets) \<Rightarrow> [SetImages (images c @ map uri assets)])"

definition submitReport :: "MapScreen \<Rightarrow> action list" where
  "submitReport c =
     [ConsoleLog ''Report Submitted:'' (reportText c) (images c),
      SetReportVisible False,
      SetReportText [],
      SetImages [],
      AlertAlert [''Success'', ''Issue reported successfully.'']]"

definition navigateToCollectorLogin :: "action list" where
  "navigateToCollectorLogin = [Navigate ''CollectorLogin'']"

subsection \<open>What is rendered (lines 113-225)\<close>

text \<open>The overlay with the activity indicator (lines 115-120).\<close>

definition loadingOverlay :: "MapScreen \<Rightarrow> bool" where
  "loadingOverlay s = loading s"

text \<open>
  One marker per bin, inside the map view, which is rendered only once a location is
  set (lines 122, 138-153). The text of a marker is the fill level followed by a
  percent sign; the number is kept as it is.
\<close>

record Marker =
  key :: string
  coordinate :: LatLng
  onPress :: "action list"
  backgroundColor :: string
  markerText :: number

definition marker :: "Bin \<Rightarrow> Marker" where
  "marker bin =
     \<lparr>key = bin_id bin,
      coordinate = \<lparr>latitude = snd (coordinates (bin_location bin)),
                    longitude = fst (coordinates (bin_location bin))\<rparr>,
      onPress = [SetSelectedBin (Some bin)],
      backgroundColor = getFillLevelColor (fillLevel bin),
      markerText = fillLevel bin\<rparr>"

definition markers :: "MapScreen \<Rightarrow> Marker list" where
  "markers s = (case location s of None \<Rightarrow> [] | Some l \<Rightarrow> map marker (bins s))"

text \<open>The refresh button does not react while the flag is set (line 175).\<close>

definition refreshButton_disabled :: "MapScreen \<Rightarrow> bool" where
  "refreshButton_disabled s = loading s"



subsection \<open>The scenario of the specification\<close>

text \<open>
  A position at (40, -73) and two bins \<open>a\<close> and \<open>b\<close>, stored longitude first, with
  fill levels 95 and 40.
\<close>

definition here :: LatLng where
  "here = \<lparr>latitude = Finite 40, longitude = Finite (- 73)\<rparr>"

definition bin_a :: Bin where
  "bin_a = \<lparr>bin_id = ''a'',
            bin_location = \<lparr>geo_type = ''Point'', coordinates = (Finite (- 73.001), Finite 40.001)\<rparr>,
            fillLevel = Finite 95\<rparr>"

definition bin_b :: Bin where
  "bin_b = \<lparr>bin_id = ''b'',
            bin_location = \<lparr>geo_type = ''Point'', coordinates = (Finite (- 73.002), Finite 40.002)\<rparr>,
            fillLevel = Finite 40\<rparr>"

definition loaded_state :: MapScreen where
  "loaded_state =
     run (initialLoad (Resolved ''granted'') (Resolved here) (Resolved [bin_a, bin_b])) initial_state"


text \<open>The state after a load whose permission request was denied.\<close>

definition denied_state :: MapScreen where
  "denied_state =
     run (initialLoad (Resolved ''denied'') (Resolved here) (Resolved [bin_a, bin_b])) initial_state"

text \<open>The state after a load whose fetch gave the same bin twice.\<close>

definition duplicated_state :: MapScreen where
  "duplicated_state =
     run (initialLoad (Resolved ''granted'') (Resolved here) (Resolved [bin_a, bin_a])) initial_state"

section \<open>Properties\<close>

subsection \<open>Auxiliary facts\<close>

lemma run_append: "run (xs @ ys) s = run ys (run xs s)"
  by (induction xs arbitrary: s) simp_all

lemma getFillLevelColor_NaN: "getFillLevelColor NaN = green"
  by (simp add: getFillLevelColor_def green_def)

lemma key_marker: "key \<circ> marker = bin_id"
  by (rule ext) (simp add: marker_def)

lemma loaded_state_eq:
  "loaded_state =
     \<lparr>location = Some here, bins = [bin_a, bin_b], selectedBin = None, loading = False,
      reportVisible = False, reportText = [], images = []\<rparr>"
  by (simp add: loaded_state_def initialLoad_def initial_state_def here_def)


lemma denied_state_eq:
  "denied_state =
     \<lparr>location = None, bins = [], selectedBin = None, loading = False,
      reportVisible = False, reportText = [], images = []\<rparr>"
  by (simp add: denied_state_def initialLoad_def initial_state_def)

lemma duplicated_state_eq:
  "duplicated_state =
     \<lparr>location = Some here, bins = [bin_a, bin_a], selectedBin = None, loading = False,
      reportVisible = False, reportText = [], images = []\<rparr>"
  by (simp add: duplicated_state_def initialLoad_def initial_state_def here_def)

subsection \<open>Marker colours\<close>

text \<open>
  Claim C1. For every numeric fill level \<open>f\<close> (every value of the number type that is
  not NaN: finite or infinite), the marker colour is red exactly when \<open>f \<ge> 90\<close>, amber
  exactly when \<open>70 \<le> f < 90\<close>, yellow exactly when \<open>50 \<le> f < 70\<close> and green exactly
  when \<open>f < 50\<close>; the bounds 90, 70 and 50 themselves belong to the upper band.
  (NaN passes no comparison and takes the last branch, green: \<open>getFillLevelColor_NaN\<close>.)
\<close>

theorem getFillLevelColor_bands:
  assumes "f \<noteq> NaN"
  shows "(getFillLevelColor f = red \<longleftrightarrow> number_ge f (Finite 90))
       \<and> (getFillLevelColor f = amber \<longleftrightarrow> number_ge f (Finite 70) \<and> number_lt f (Finite 90))
       \<and> (getFillLevelColor f = yellow \<longleftrightarrow> number_ge f (Finite 50) \<and> number_lt f (Finite 70))
       \<and> (getFillLevelColor f = green \<longleftrightarrow> number_lt f (Finite 50))
       \<and> getFillLevelColor (Finite 90) = red
       \<and> getFillLevelColor (Finite 70) = amber
       \<and> getFillLevelColor (Finite 50) = yellow"
  using assms
  by (cases f) (auto simp: getFillLevelColor_def red_def amber_def yellow_def green_def)

theorem getFillLevelColor_bands_witness:
  "Finite 95 \<noteq> NaN \<and> getFillLevelColor (Finite 95) = red \<and> getFillLevelColor (Finite 40) = green
   \<and> getFillLevelColor (Finite 89.5) = amber \<and> getFillLevelColor (Finite 69.999) = yellow"
  using getFillLevelColor_bands [of "Finite 95"] getFillLevelColor_bands [of "Finite 40"]
    getFillLevelColor_bands [of "Finite 89.5"] getFillLevelColor_bands [of "Finite 69.999"]
  by simp

subsection \<open>The initial load and the refresh\<close>

text \<open>
  Claim C2. When the permission request gives a status other than \<open>granted\<close>, the
  initial load leaves the bin list as it was (empty, from the initial state), calls
  neither the position provider nor the bin service, sets no location, raises the
  permission alert and ends with the loading flag cleared.
\<close>

theorem permission_denied_stops:
  assumes "status \<noteq> ''granted''"
  shows "bins (run (initialLoad (Resolved status) position fetched) s) = bins s
       \<and> bins (run (initialLoad (Resolved status) position fetched) initial_state) = []
       \<and> location (run (initialLoad (Resolved status) position fetched) s) = location s
       \<and> (\<forall>lat lon r. GetBinsNearby lat lon r \<notin> set (initialLoad (Resolved status) position fetched))
       \<and> GetCurrentPositionAsync \<notin> set (initialLoad (Resolved status) position fetched)
       \<and> AlertAlert [''Permission to access location was denied'']
            \<in> set (initialLoad (Resolved status) position fetched)
       \<and> loading (run (initialLoad (Resolved status) position fetched) s) = False"
  using assms by (simp add: initialLoad_def initial_state_def)

theorem permission_denied_stops_witness:
  "''denied'' \<noteq> ''granted''
   \<and> bins (run (initialLoad (Resolved ''denied'') (Rejected (JsError ''unused'')) (Resolved [bin_a]))
        initial_state) = []
   \<and> loading (run (initialLoad (Resolved ''denied'') (Rejected (JsError ''unused'')) (Resolved [bin_a]))
        initial_state) = False"
  using permission_denied_stops
    [of "''denied''" "Rejected (JsError ''unused'')" "Resolved [bin_a]" initial_state]
  by (simp add: initial_state_def)

text \<open>
  Claim C3. Whatever the bin list was, an initial load or a refresh whose call of the
  bin service throws leaves the bin list exactly as it was.
\<close>

theorem failed_fetch_keeps_bins:
  "bins (run (initialLoad permission position (Rejected e)) s) = bins s
   \<and> bins (run (refreshBins c (Rejected e)) s) = bins s"
proof
  show "bins (run (initialLoad permission position (Rejected e)) s) = bins s"
    by (simp add: initialLoad_def load_catch_def split: outcome.splits)
next
  show "bins (run (refreshBins c (Rejected e)) s) = bins s"
    by (cases "location c") (simp_all add: refreshBins_def)
qed

text \<open>
  Claim C4. A refresh invoked while no location is set does nothing at all: it performs
  no action, so it issues no call of the bin service and no write of the loading flag,
  and the state, the bin list in particular, is unchanged.
\<close>

theorem refresh_without_location_noop:
  assumes "location c = None"
  shows "refreshBins c fetched = []
       \<and> run (refreshBins c fetched) s = s
       \<and> bins (run (refreshBins c fetched) s) = bins s
       \<and> loading (run (refreshBins c fetched) s) = loading s
       \<and> (\<forall>lat lon r. GetBinsNearby lat lon r \<notin> set (refreshBins c fetched))
       \<and> (\<forall>b. SetLoading b \<notin> set (refreshBins c fetched))"
  using assms by (simp add: refreshBins_def)

theorem refresh_without_location_noop_witness:
  "location initial_state = None
   \<and> refreshBins initial_state (Resolved [bin_a]) = []
   \<and> run (refreshBins initial_state (Resolved [bin_a])) initial_state = initial_state"
  using refresh_without_location_noop [of initial_state "Resolved [bin_a]" initial_state]
  by (simp add: initial_state_def)

text \<open>
  Claim C5. The loading flag is false after every initial load, whatever its three
  awaited calls give back (success, permission denied, any call throwing), and after
  every refresh, whether its fetch succeeds or throws. The refresh is invoked from its
  button only, which does not react while the flag is set (line 175): from a state
  with the button enabled the flag is false afterwards, with or without a location.
  A refresh that closes over a location clears the flag in whatever state it ends; one
  that closes over none returns at its guard and leaves the flag as it finds it.
\<close>

theorem loading_cleared_after_fetch_sequence:
  "loading (run (initialLoad permission position fetched) s) = False
   \<and> (\<not> refreshButton_disabled s \<longrightarrow> loading (run (refreshBins s fetched) s) = False)
   \<and> (location c \<noteq> None \<longrightarrow> loading (run (refreshBins c fetched) s) = False)
   \<and> (location c = None \<longrightarrow> loading (run (refreshBins c fetched) s) = loading s)"
proof -
  have load: "loading (run (initialLoad permission position fetched) s) = False"
    by (simp add: initialLoad_def load_catch_def run_append split: outcome.splits)
  have some: "loading (run (refreshBins c fetched) s) = False" if "location c \<noteq> None" for c
    using that by (auto simp: refreshBins_def run_append split: outcome.splits)
  have none: "loading (run (refreshBins c fetched) s) = loading s" if "location c = None" for c
    using that by (simp add: refreshBins_def)
  have enabled: "loading (run (refreshBins s fetched) s) = False" if "\<not> refreshButton_disabled s"
    using that some [of s] none [of s] by (cases "location s") (simp_all add: refreshButton_disabled_def)
  from load some none enabled show ?thesis by blast
qed

theorem loading_cleared_after_fetch_sequence_witness:
  "\<not> refreshButton_disabled loaded_state
   \<and> location loaded_state \<noteq> None
   \<and> loading (run (refreshBins loaded_state (Rejected (JsError ''timeout''))) loaded_state) = False
   \<and> \<not> refreshButton_disabled denied_state
   \<and> location denied_state = None
   \<and> loading (run (refreshBins denied_state (Resolved [bin_a])) denied_state) = False
   \<and> loading denied_state = False"
  using loading_cleared_after_fetch_sequence
      [of _ _ "Rejected (JsError ''timeout'')" loaded_state loaded_state]
    loading_cleared_after_fetch_sequence
      [of _ _ "Resolved [bin_a]" denied_state denied_state]
  by (simp add: loaded_state_eq denied_state_eq refreshButton_disabled_def)

subsection \<open>The report draft\<close>

text \<open>
  Claim C6. Whatever the image list is, a pick that is not cancelled puts the picked
  URIs after the images already there, in the picker's order, and a cancelled pick
  changes nothing; two picks in a row give the old images, then the first pick, then
  the second (2 and 3 images on an empty draft: 5).
\<close>

theorem pickImages_appends:
  "images (run (pickImages s (Resolved (Success assets))) s) = images s @ map uri assets
   \<and> images (run (pickImages s (Resolved Canceled)) s) = images s
   \<and> run (pickImages s (Resolved Canceled)) s = s
   \<and> images (run (pickImages (run (pickImages s (Resolved (Success first))) s)
                               (Resolved (Success second)))
                  (run (pickImages s (Resolved (Success first))) s))
       = images s @ map uri first @ map uri second
   \<and> length (images (run (pickImages (run (pickImages s (Resolved (Success first))) s)
                                       (Resolved (Success second)))
                          (run (pickImages s (Resolved (Success first))) s)))
       = length (images s) + length first + length second"
  by (simp add: pickImages_def)

text \<open>
  Claim C7. Whatever the draft holds (any text, any images, both empty included),
  submitting leaves the report text empty, the image list empty and the modal closed,
  and ends with the success alert.
\<close>

theorem submitReport_clears_draft:
  "reportText (run (submitReport c) s) = []
   \<and> images (run (submitReport c) s) = []
   \<and> reportVisible (run (submitReport c) s) = False
   \<and> AlertAlert [''Success'', ''Issue reported successfully.''] \<in> set (submitReport c)
   \<and> last (submitReport c) = AlertAlert [''Success'', ''Issue reported successfully.'']"
  by (simp add: submitReport_def)

subsection \<open>Markers and the detail panel\<close>

text \<open>
  Claim C8, as amended. After a successful fetch of \<open>bs\<close>, by the initial load or by a
  refresh with a location set, there is one marker per fetched bin, in order; the key of
  each marker is the id of its bin, and the keys are pairwise distinct exactly when the
  fetched ids are (the fetched list is rendered as it comes); each marker stands at
  latitude \<open>coordinates[1]\<close> and longitude \<open>coordinates[0]\<close> of its bin.
\<close>

theorem markers_after_successful_fetch:
  assumes "s' = run (initialLoad (Resolved ''granted'') (Resolved coords) (Resolved bs)) s
           \<or> (location s \<noteq> None \<and> s' = run (refreshBins s (Resolved bs)) s)"
  shows "length (markers s') = length bs
       \<and> map key (markers s') = map bin_id bs
       \<and> (\<forall>i < length bs.
            key (markers s' ! i) = bin_id (bs ! i)
            \<and> latitude (coordinate (markers s' ! i)) = snd (coordinates (bin_location (bs ! i)))
            \<and> longitude (coordinate (markers s' ! i)) = fst (coordinates (bin_location (bs ! i))))
       \<and> (distinct (map bin_id bs) \<longrightarrow> distinct (map key (markers s')))
       \<and> distinct (map key (markers s')) = distinct (map bin_id bs)"
proof -
  from assms have "location s' \<noteq> None" and "bins s' = bs"
    by (auto simp: initialLoad_def refreshBins_def)
  then have m: "markers s' = map marker bs"
    by (auto simp: markers_def)
  show ?thesis
    unfolding m by (simp add: key_marker) (simp add: marker_def)
qed

theorem markers_after_successful_fetch_witness:
  "map key (markers loaded_state) = [''a'', ''b'']
   \<and> distinct (map key (markers loaded_state))
   \<and> map coordinate (markers loaded_state)
       = [\<lparr>latitude = Finite 40.001, longitude = Finite (- 73.001)\<rparr>,
          \<lparr>latitude = Finite 40.002, longitude = Finite (- 73.002)\<rparr>]
   \<and> map backgroundColor (markers loaded_state) = [red, green]"
  using markers_after_successful_fetch [of loaded_state here "[bin_a, bin_b]" initial_state]
  by (simp add: loaded_state_eq markers_def marker_def bin_a_def bin_b_def
      getFillLevelColor_def red_def green_def)

text \<open>
  Without the condition on the ids the keys need not be distinct: a fetch that gives
  the same bin twice is rendered as two markers with one key.
\<close>

theorem duplicate_ids_duplicate_keys_counterexample:
  "length (markers duplicated_state) = 2
   \<and> map key (markers duplicated_state) = [''a'', ''a'']
   \<and> \<not> distinct (map key (markers duplicated_state))"
  by (simp add: duplicated_state_eq markers_def marker_def bin_a_def)

text \<open>
  Claim C9, as amended. The refresh has no loading flag of its own: it writes the one
  flag the initial load writes. Each of the two operations sets it first and clears it
  last (the refresh when a location is set), and the one overlay is shown from the
  first action of either until its end.
\<close>

theorem refresh_shares_loading_flag:
  "hd (initialLoad permission position fetched) = SetLoading True
   \<and> last (initialLoad permission position fetched) = SetLoading False
   \<and> loadingOverlay (run (take 1 (initialLoad permission position fetched)) s)
   \<and> \<not> loadingOverlay (run (initialLoad permission position fetched) s)
   \<and> (location c \<noteq> None \<longrightarrow>
        hd (refreshBins c fetched) = SetLoading True
      \<and> last (refreshBins c fetched) = SetLoading False
      \<and> loadingOverlay (run (take 1 (refreshBins c fetched)) s)
      \<and> loadingOverlay (run (take 2 (refreshBins c fetched)) s)
      \<and> \<not> loadingOverlay (run (refreshBins c fetched) s))"
  by (auto simp add: initialLoad_def refreshBins_def load_catch_def loadingOverlay_def run_append
      split: outcome.splits option.splits)

theorem refresh_shares_loading_flag_witness:
  "location loaded_state \<noteq> None
   \<and> hd (refreshBins loaded_state (Resolved [bin_a])) = SetLoading True
   \<and> last (refreshBins loaded_state (Resolved [bin_a])) = SetLoading False
   \<and> loadingOverlay (run (take 1 (refreshBins loaded_state (Resolved [bin_a]))) loaded_state)
   \<and> \<not> loadingOverlay (run (refreshBins loaded_state (Resolved [bin_a])) loaded_state)"
  using refresh_shares_loading_flag [of _ _ "Resolved [bin_a]" loaded_state loaded_state]
  by (simp add: loaded_state_eq)

text \<open>
  Both operations call the same setter, and the first action of a refresh started after
  a finished initial load turns the overlay of the initial load back on.
\<close>

theorem refresh_reuses_loading_flag_counterexample:
  "SetLoading True \<in> set (initialLoad (Resolved ''granted'') (Resolved here) (Resolved [bin_a, bin_b]))
   \<and> SetLoading True \<in> set (refreshBins loaded_state (Resolved [bin_a]))
   \<and> loadingOverlay loaded_state = False
   \<and> loadingOverlay (run (take 1 (refreshBins loaded_state (Resolved [bin_a]))) loaded_state) = True"
  by (simp add: loaded_state_eq initialLoad_def refreshBins_def loadingOverlay_def)



end
